theory Spec2Isabelle
  imports Complex_Main "HOL-Library.Sublist" "HOL-Library.Multiset"
begin

section \<open>Task entity model (types/api.ts)\<close>

text \<open>
  A TypeScript \<^verbatim>\<open>number\<close> is modelled as a real: the operations below only copy
  numbers, compare them with zero or subtract them, and never depend on rounding.
  \<^verbatim>\<open>TaskStatus\<close> is a union of string literals; the store writes
  \<^verbatim>\<open>progress.status as any\<close> into it, so at run time the field holds an arbitrary
  string and is modelled as one. Field names are those of the interfaces; where two
  interfaces share a name the later one has a prefix (\<open>pm_progress\<close>, \<open>pm_speed\<close>
  and \<open>pm_status\<close> of \<^verbatim>\<open>ProgressMessage\<close>).
\<close>

type_synonym number = real

record DownloadTask =
  id :: string
  title :: string
  page_url :: string
  video_url :: string
  thumbnail_url :: string
  resolution :: string
  status :: string
  progress :: number
  downloaded_bytes :: number
  total_bytes :: number
  speed :: number
  error_message :: string
  created_at :: string
  completed_at :: string
  save_dir :: string

record ProgressMessage =
  task_id :: string
  pm_progress :: number
  downloaded :: number
  total :: number
  pm_speed :: number
  pm_status :: string

section \<open>Task store (store/task-store.ts)\<close>

record TaskStore =
  tasks :: "DownloadTask list"

definition initialStore :: TaskStore where
  "initialStore = \<lparr>tasks = []\<rparr>"

text \<open>\<^verbatim>\<open>setTasks: (tasks) => set({ tasks })\<close>\<close>

definition setTasks :: "DownloadTask list \<Rightarrow> TaskStore \<Rightarrow> TaskStore" where
  "setTasks ts state = state\<lparr>tasks := ts\<rparr>"

text \<open>\<^verbatim>\<open>removeTask: tasks.filter((task) => task.id !== taskId)\<close>\<close>

definition removeTask :: "string \<Rightarrow> TaskStore \<Rightarrow> TaskStore" where
  "removeTask taskId state =
     state\<lparr>tasks := filter (\<lambda>task. id task \<noteq> taskId) (tasks state)\<rparr>"

text \<open>
  The object literal of \<^verbatim>\<open>updateProgress\<close>: a copy of the task with five
  fields taken from the message.
\<close>

definition patchTask :: "ProgressMessage \<Rightarrow> DownloadTask \<Rightarrow> DownloadTask" where
  "patchTask p task =
     task\<lparr>progress := pm_progress p,
          downloaded_bytes := downloaded p,
          total_bytes := total p,
          speed := pm_speed p,
          status := pm_status p\<rparr>"

definition updateProgress :: "ProgressMessage \<Rightarrow> TaskStore \<Rightarrow> TaskStore" where
  "updateProgress p state =
     state\<lparr>tasks := map (\<lambda>task. if id task = task_id p then patchTask p task else task)
                         (tasks state)\<rparr>"

text \<open>The statuses the lifecycle calls terminal.\<close>

definition terminal :: "string \<Rightarrow> bool" where
  "terminal s = (s = ''completed'' \<or> s = ''failed'' \<or> s = ''cancelled'')"

text \<open>A run of polls: each response is written with \<^const>\<open>setTasks\<close>, in arrival order.\<close>

definition replaceAll_run :: "DownloadTask list list \<Rightarrow> TaskStore \<Rightarrow> TaskStore" where
  "replaceAll_run polls state = foldl (\<lambda>s ts. setTasks ts s) state polls"

text \<open>Sample data used by the closed instances below.\<close>

definition mkTask :: "string \<Rightarrow> string \<Rightarrow> string \<Rightarrow> DownloadTask" where
  "mkTask i st created =
     \<lparr>id = i, title = ''t'', page_url = ''p'', video_url = ''v'', thumbnail_url = ''th'',
      resolution = ''720p'', status = st, progress = 0, downloaded_bytes = 0,
      total_bytes = 0, speed = 0, error_message = [], created_at = created,
      completed_at = [], save_dir = ''d''\<rparr>"

definition mkMsg :: "string \<Rightarrow> number \<Rightarrow> string \<Rightarrow> ProgressMessage" where
  "mkMsg i pr st =
     \<lparr>task_id = i, pm_progress = pr, downloaded = 10, total = 20, pm_speed = 3,
      pm_status = st\<rparr>"

section \<open>Ordering policy (components/download/task-list.tsx)\<close>










section \<open>Strings of the language\<close>

text \<open>
  A string is a list of code units; the model covers code units below 256. Of the
  white space and line terminators that \<^verbatim>\<open>trim\<close> removes, these are the ones in
  that range: tab, line feed, vertical tab, form feed, carriage return, space and
  no-break space.
\<close>

definition isWhiteSpace :: "char \<Rightarrow> bool" where
  "isWhiteSpace c =
     (c \<in> set [CHR 0x09, CHR 0x0A, CHR 0x0B, CHR 0x0C, CHR 0x0D, CHR 0x20, CHR 0xA0])"

definition trimStart :: "string \<Rightarrow> string" where
  "trimStart s = dropWhile isWhiteSpace s"

definition trimEnd :: "string \<Rightarrow> string" where
  "trimEnd s = rev (dropWhile isWhiteSpace (rev s))"

definition trim :: "string \<Rightarrow> string" where
  "trim s = trimEnd (trimStart s)"

definition startsWith :: "string \<Rightarrow> string \<Rightarrow> bool" where
  "startsWith s p = (take (length p) s = p)"

fun includesStr :: "string \<Rightarrow> string \<Rightarrow> bool" where
  "includesStr [] p = (p = [])"
| "includesStr (c # cs) p = (startsWith (c # cs) p \<or> includesStr cs p)"

text \<open>\<^verbatim>\<open>s.split(sep)\<close> for a separator of one code unit.\<close>

fun split :: "char \<Rightarrow> string \<Rightarrow> string list" where
  "split sep [] = [[]]"
| "split sep (c # cs) =
     (if c = sep then [] # split sep cs
      else (case split sep cs of
              [] \<Rightarrow> [[c]]
            | piece # pieces \<Rightarrow> (c # piece) # pieces))"

section \<open>Bulk import (hooks/use-bulk-urls.ts, BulkUrlsSection)\<close>

record BulkUrlsRequest =
  urls :: "string list"
  req_resolution :: string

record BulkUrlsResponse =
  task_ids :: "string list"
  success_count :: number
  failed_count :: number
  failed_urls :: "string list"

text \<open>The outcome of a promise.\<close>

datatype 'a settled = Fulfilled 'a | Rejected string

text \<open>
  What \<^verbatim>\<open>fetch\<close> can come back with: no response at all, a response that is not
  \<^verbatim>\<open>ok\<close> (with its status text), or an \<^verbatim>\<open>ok\<close> response with its body.
\<close>

datatype bulk_reply =
  FetchFailed string
  | NotOk string
  | Ok BulkUrlsResponse

definition bulkUrlsImport :: "bulk_reply \<Rightarrow> BulkUrlsResponse settled" where
  "bulkUrlsImport reply =
     (case reply of
        FetchFailed e \<Rightarrow> Rejected e
      | NotOk statusText \<Rightarrow> Rejected (''Bulk URLs import failed: '' @ statusText)
      | Ok body \<Rightarrow> Fulfilled body)"

definition validateVideoUrl :: "string \<Rightarrow> bool" where
  "validateVideoUrl url =
     (if url = [] then False
      else let trimmed = trim url
           in if trimmed = [] then False
              else includesStr trimmed ''hanime1.me/watch'' \<or> startsWith trimmed ''/watch'')"

definition parseUrls :: "string \<Rightarrow> string list" where
  "parseUrls text =
     filter (\<lambda>line. length line > 0) (map trim (split CHR 0x0A text))"

text \<open>
  A toast. The two messages with counts are kept as their parts rather than as the
  formatted sentence; the description of a warning is the optional string.
\<close>

datatype toast =
  ToastError string
  | ToastSuccessCreated number
  | ToastWarningCreated number number "string option"

fun join :: "string \<Rightarrow> string list \<Rightarrow> string" where
  "join sep [] = []"
| "join sep [x] = x"
| "join sep (x # y # ys) = x @ sep @ join sep (y # ys)"

text \<open>\<^verbatim>\<open>onSuccess\<close> and \<^verbatim>\<open>onError\<close> of \<^verbatim>\<open>useBulkUrls\<close>.\<close>

definition useBulkUrls_onSuccess :: "BulkUrlsResponse \<Rightarrow> toast" where
  "useBulkUrls_onSuccess data =
     (if failed_count data > 0
      then ToastWarningCreated (success_count data) (failed_count data)
             (if length (failed_urls data) > 0
              then Some (''Failed URLs: '' @ join '', '' (take 3 (failed_urls data))
                         @ (if length (failed_urls data) > 3 then ''...'' else ''''))
              else None)
      else ToastSuccessCreated (success_count data))"

definition useBulkUrls_onError :: "string \<Rightarrow> toast" where
  "useBulkUrls_onError message = ToastError (''Bulk import failed: '' @ message)"

text \<open>
  The state of the section: the text box, the chosen resolution, the file name, and
  what the run leaves behind: the requests sent, the toasts shown and the data of the
  mutation, which is the result the section is given.
\<close>

record BulkUrlsSection =
  urlsText :: string
  ui_resolution :: string
  fileName :: "string option"
  requests :: "BulkUrlsRequest list"
  toasts :: "toast list"
  mutation_data :: "BulkUrlsResponse option"

definition initialSection :: "string \<Rightarrow> BulkUrlsSection" where
  "initialSection text =
     \<lparr>urlsText = text, ui_resolution = ''720p'', fileName = None, requests = [],
      toasts = [], mutation_data = None\<rparr>"

definition validUrls :: "BulkUrlsSection \<Rightarrow> string list" where
  "validUrls ui = filter validateVideoUrl (parseUrls (urlsText ui))"

definition invalidUrls :: "BulkUrlsSection \<Rightarrow> string list" where
  "invalidUrls ui = filter (\<lambda>url. \<not> validateVideoUrl url) (parseUrls (urlsText ui))"

text \<open>
  \<^verbatim>\<open>handleBulkDownload\<close>, run until the mutation settles. The server is the
  parameter \<open>server\<close>: its reply to the one request. With no valid URL the function
  returns after an error toast (the text of \<^verbatim>\<open>t('common.error')\<close>) and sends
  nothing.
\<close>

definition handleBulkDownload ::
  "(BulkUrlsRequest \<Rightarrow> bulk_reply) \<Rightarrow> BulkUrlsSection \<Rightarrow> BulkUrlsSection" where
  "handleBulkDownload server ui =
     (if length (validUrls ui) = 0
      then ui\<lparr>toasts := toasts ui @ [ToastError ''common.error'']\<rparr>
      else let request = \<lparr>urls = validUrls ui, req_resolution = ui_resolution ui\<rparr>;
               sent = ui\<lparr>requests := requests ui @ [request]\<rparr>
           in (case bulkUrlsImport (server request) of
                 Fulfilled data \<Rightarrow>
                   sent\<lparr>toasts := toasts sent @ [useBulkUrls_onSuccess data],
                        mutation_data := Some data,
                        urlsText := [],
                        fileName := None\<rparr>
               | Rejected message \<Rightarrow>
                   sent\<lparr>toasts := toasts sent @ [useBulkUrls_onError message]\<rparr>))"

text \<open>
  Modelled from the spec: the endpoint \<^verbatim>\<open>POST /bulk-urls\<close> of the backend, which is
  not among the sources. It attempts each submitted URL on its own and answers with
  the ids of the tasks created, the two counts and the URLs that failed. Which URLs it
  accepts is the parameter \<open>accepts\<close>.
\<close>

definition backend_bulk_urls :: "(string \<Rightarrow> bool) \<Rightarrow> BulkUrlsRequest \<Rightarrow> bulk_reply" where
  "backend_bulk_urls accepts request =
     Ok \<lparr>task_ids = map (\<lambda>url. ''task-'' @ url) (filter accepts (urls request)),
         success_count = of_nat (length (filter accepts (urls request))),
         failed_count = of_nat (length (filter (\<lambda>url. \<not> accepts url) (urls request))),
         failed_urls = filter (\<lambda>url. \<not> accepts url) (urls request)\<rparr>"

text \<open>Inputs for the closed instances: three lines each.\<close>

definition sample_input :: string where
  "sample_input = '' /watch/me \<newline>ftp://x\<newline>https://hanime1.me/watch?v=7''"

definition site_input :: string where
  "site_input = ''https://site/watch?v=1\<newline>not-a-url\<newline>https://site/watch?v=2''"

definition hanime_input :: string where
  "hanime_input =
     ''https://hanime1.me/watch?v=1\<newline>not-a-url\<newline>https://hanime1.me/watch?v=2''"

section \<open>Live-update channel (hooks/use-websocket.ts)\<close>

text \<open>The values \<^verbatim>\<open>JSON.parse\<close> can return. An object is the list of its properties.\<close>

datatype json =
  JNull
  | JBool bool
  | JNumber number
  | JString string
  | JArray "json list"
  | JObject "(string \<times> json) list"

text \<open>How an expression ends: with a value, or with an exception thrown.\<close>

datatype 'a completion = Normal 'a | Throw string

text \<open>
  \<^verbatim>\<open>data.key\<close> for a key that is no built-in property (\<open>task_id\<close> and \<open>progress\<close>
  are none). On \<^verbatim>\<open>null\<close> the access throws; on an object it is the field, or
  \<^verbatim>\<open>undefined\<close> (here \<open>None\<close>) without one; on any other value it is
  \<^verbatim>\<open>undefined\<close>.
\<close>

fun getProperty :: "json \<Rightarrow> string \<Rightarrow> json option completion" where
  "getProperty JNull key = Throw ''TypeError''"
| "getProperty (JObject props) key = Normal (map_of props key)"
| "getProperty (JBool b) key = Normal None"
| "getProperty (JNumber n) key = Normal None"
| "getProperty (JString s) key = Normal None"
| "getProperty (JArray vs) key = Normal None"

text \<open>What \<^verbatim>\<open>&&\<close> takes for true.\<close>

fun truthy :: "json option \<Rightarrow> bool" where
  "truthy None = False"
| "truthy (Some JNull) = False"
| "truthy (Some (JBool b)) = b"
| "truthy (Some (JNumber n)) = (n \<noteq> 0)"
| "truthy (Some (JString s)) = (s \<noteq> [])"
| "truthy (Some (JArray vs)) = True"
| "truthy (Some (JObject props)) = True"

fun typeof :: "json option \<Rightarrow> string" where
  "typeof None = ''undefined''"
| "typeof (Some JNull) = ''object''"
| "typeof (Some (JBool b)) = ''boolean''"
| "typeof (Some (JNumber n)) = ''number''"
| "typeof (Some (JString s)) = ''string''"
| "typeof (Some (JArray vs)) = ''object''"
| "typeof (Some (JObject props)) = ''object''"

text \<open>
  What the message handler does with one message: the \<^verbatim>\<open>if\<close> taken, the
  \<^verbatim>\<open>if\<close> not taken, or the \<^verbatim>\<open>catch\<close>. The argument is what
  \<^verbatim>\<open>JSON.parse(event.data)\<close> gives: a value, or \<open>None\<close> where it throws.
  \<^verbatim>\<open>data.task_id\<close> is read first, and \<^verbatim>\<open>data.progress\<close> only if it is truthy.
\<close>

datatype message_outcome = Forwarded json | Ignored | Caught string

definition onmessage_outcome :: "json option \<Rightarrow> message_outcome" where
  "onmessage_outcome parsed =
     (case parsed of
        None \<Rightarrow> Caught ''SyntaxError''
      | Some data \<Rightarrow>
          (case getProperty data ''task_id'' of
             Throw e \<Rightarrow> Caught e
           | Normal taskId \<Rightarrow>
               if truthy taskId
               then (case getProperty data ''progress'' of
                       Throw e \<Rightarrow> Caught e
                     | Normal p \<Rightarrow> if typeof p = ''number'' then Forwarded data else Ignored)
               else Ignored))"

text \<open>
  The state of the hook: the store, how many sockets \<^verbatim>\<open>connect\<close> has created, the
  delays in milliseconds of the pending \<^verbatim>\<open>setTimeout(connect, _)\<close> calls, oldest
  first, and the console.
\<close>

record WsClient =
  ws_store :: TaskStore
  sockets :: nat
  timers :: "nat list"
  console :: "string list"

definition connect :: "WsClient \<Rightarrow> WsClient" where
  "connect c = c\<lparr>console := console c @ [''Connecting to WebSocket''],
                 sockets := Suc (sockets c)\<rparr>"

definition onopen :: "WsClient \<Rightarrow> WsClient" where
  "onopen c = c\<lparr>console := console c @ [''WebSocket connected'']\<rparr>"

text \<open>
  \<open>deliver\<close> is what the handler calls on a forwarded payload: in the hook, the
  store's \<^verbatim>\<open>updateProgress\<close> on the payload taken as a \<^verbatim>\<open>ProgressMessage\<close>.
\<close>

definition onmessage ::
  "(json \<Rightarrow> TaskStore \<Rightarrow> TaskStore) \<Rightarrow> json option \<Rightarrow> WsClient \<Rightarrow> WsClient" where
  "onmessage deliver parsed c =
     (case onmessage_outcome parsed of
        Forwarded data \<Rightarrow> c\<lparr>ws_store := deliver data (ws_store c)\<rparr>
      | Ignored \<Rightarrow> c
      | Caught e \<Rightarrow>
          c\<lparr>console := console c @ [''Failed to parse WebSocket message: '' @ e]\<rparr>)"

definition onclose :: "WsClient \<Rightarrow> WsClient" where
  "onclose c = c\<lparr>console := console c @ [''WebSocket disconnected''],
                 timers := timers c @ [3000]\<rparr>"

definition onerror :: "string \<Rightarrow> WsClient \<Rightarrow> WsClient" where
  "onerror e c = c\<lparr>console := console c @ [''WebSocket error: '' @ e]\<rparr>"

text \<open>The oldest pending timer fires and runs \<^const>\<open>connect\<close>.\<close>

definition timer_fires :: "WsClient \<Rightarrow> WsClient" where
  "timer_fires c =
     (case timers c of
        [] \<Rightarrow> c
      | delay # pending \<Rightarrow> connect (c\<lparr>timers := pending\<rparr>))"

datatype ws_event =
  OnOpen
  | OnMessage "json option"
  | OnClose
  | OnError string
  | TimerFires

fun ws_step :: "(json \<Rightarrow> TaskStore \<Rightarrow> TaskStore) \<Rightarrow> WsClient \<Rightarrow> ws_event \<Rightarrow> WsClient" where
  "ws_step deliver c OnOpen = onopen c"
| "ws_step deliver c (OnMessage parsed) = onmessage deliver parsed c"
| "ws_step deliver c OnClose = onclose c"
| "ws_step deliver c (OnError e) = onerror e c"
| "ws_step deliver c TimerFires = timer_fires c"

definition ws_run :: "(json \<Rightarrow> TaskStore \<Rightarrow> TaskStore) \<Rightarrow> ws_event list \<Rightarrow> WsClient \<Rightarrow> WsClient" where
  "ws_run deliver events c = foldl (ws_step deliver) c events"

text \<open>The effect of the hook: \<^verbatim>\<open>connect()\<close> is called once.\<close>

definition useWebSocket :: "TaskStore \<Rightarrow> WsClient" where
  "useWebSocket store = connect \<lparr>ws_store = store, sockets = 0, timers = [], console = []\<rparr>"

text \<open>
  The envelope that \<^verbatim>\<open>types/api.ts\<close> declares for the channel,
  \<^verbatim>\<open>WebSocketMessage { type, data }\<close>: the payload is the field \<open>data\<close>.
\<close>

definition WebSocketMessage :: "string \<Rightarrow> json \<Rightarrow> json" where
  "WebSocketMessage kind payload = JObject [(''type'', JString kind), (''data'', payload)]"

text \<open>
  A payload with the six fields of \<^verbatim>\<open>ProgressMessage\<close>, for the closed instances;
  as a typed message it is \<open>mkMsg i 50 ''downloading''\<close>.
\<close>

definition progress_payload :: "string \<Rightarrow> json" where
  "progress_payload i =
     JObject [(''task_id'', JString i), (''progress'', JNumber 50),
              (''downloaded'', JNumber 10), (''total'', JNumber 20),
              (''speed'', JNumber 3), (''status'', JString ''downloading'')]"

section \<open>Deleting a task (hooks/use-tasks.ts, TaskCard)\<close>

text \<open>
  What the HTTP client comes back with; it resolves for a status from 200 to 299 and
  rejects otherwise.
\<close>

datatype http_reply = NoResponse string | Status nat

definition taskApi_delete :: "http_reply \<Rightarrow> unit settled" where
  "taskApi_delete reply =
     (case reply of
        NoResponse e \<Rightarrow> Rejected e
      | Status code \<Rightarrow>
          if 200 \<le> code \<and> code < 300 then Fulfilled ()
          else Rejected ''Request failed'')"

text \<open>
  The page: the store, the ids of the delete requests on their way, whether the task
  list query was invalidated, and the messages toasted.
\<close>

record TaskPage =
  page_store :: TaskStore
  deleting :: "string list"
  invalidated :: bool
  page_toasts :: "string list"

text \<open>\<^verbatim>\<open>deleteTask.mutate(task.id, ...)\<close>: the request leaves; no callback runs yet.\<close>

definition handleDelete :: "string \<Rightarrow> TaskPage \<Rightarrow> TaskPage" where
  "handleDelete taskId page = page\<lparr>deleting := deleting page @ [taskId]\<rparr>"

text \<open>\<^verbatim>\<open>onSuccess\<close> of \<^verbatim>\<open>useDeleteTask\<close>.\<close>

definition useDeleteTask_onSuccess :: "string \<Rightarrow> TaskPage \<Rightarrow> TaskPage" where
  "useDeleteTask_onSuccess taskId page =
     page\<lparr>page_store := removeTask taskId (page_store page), invalidated := True\<rparr>"

text \<open>
  The request for \<open>taskId\<close> settles: on success the callback of the hook and then the
  one of the card run; on failure only the card's \<^verbatim>\<open>onError\<close>.
\<close>

definition delete_settled :: "unit settled \<Rightarrow> string \<Rightarrow> TaskPage \<Rightarrow> TaskPage" where
  "delete_settled outcome taskId page =
     (let page' = page\<lparr>deleting := remove1 taskId (deleting page)\<rparr>
      in case outcome of
           Fulfilled u \<Rightarrow>
             (let removed = useDeleteTask_onSuccess taskId page'
              in removed\<lparr>page_toasts := page_toasts removed @ [''Task deleted'']\<rparr>)
         | Rejected e \<Rightarrow> page'\<lparr>page_toasts := page_toasts page' @ [''Failed to delete task'']\<rparr>)"

section \<open>Store properties\<close>

lemma tasks_setTasks: "tasks (setTasks ts state) = ts"
  by (simp add: setTasks_def)

lemma replaceAll_run_snoc:
  "replaceAll_run (polls @ [ts]) state = setTasks ts (replaceAll_run polls state)"
  by (simp add: replaceAll_run_def)

text \<open>
  C1. \<^const>\<open>setTasks\<close> makes the visible collection exactly its argument, whatever the
  prior state: the same tasks in the same order, hence every task of the input is
  present and none from outside it is kept. After any non-empty sequence of such calls
  the collection is the input of the last one.
\<close>

theorem setTasks_replaces_all:
  "tasks (setTasks ts state) = ts
   \<and> set (tasks (setTasks ts state)) = set ts
   \<and> (polls \<noteq> [] \<longrightarrow> tasks (replaceAll_run polls state) = last polls)"
proof -
  have "tasks (replaceAll_run polls state) = last polls" if "polls \<noteq> []"
  proof -
    from that obtain ps ts where "polls = ps @ [ts]"
      by (metis rev_exhaust)
    then show ?thesis
      by (simp add: replaceAll_run_snoc tasks_setTasks)
  qed
  then show ?thesis
    by (simp add: tasks_setTasks)
qed

theorem setTasks_replaces_all_witness:
  "[[mkTask ''a'' ''pending'' ''1''], [mkTask ''b'' ''failed'' ''2'']] \<noteq> []
   \<and> tasks (replaceAll_run [[mkTask ''a'' ''pending'' ''1''], [mkTask ''b'' ''failed'' ''2'']]
        \<lparr>tasks = [mkTask ''c'' ''completed'' ''0'']\<rparr>)
     = [mkTask ''b'' ''failed'' ''2'']"
  using setTasks_replaces_all
    [of "[mkTask ''b'' ''failed'' ''2'']" "\<lparr>tasks = [mkTask ''c'' ''completed'' ''0'']\<rparr>"
        "[[mkTask ''a'' ''pending'' ''1''], [mkTask ''b'' ''failed'' ''2'']]"]
  by simp

lemma length_updateProgress: "length (tasks (updateProgress m state)) = length (tasks state)"
  by (simp add: updateProgress_def)

lemma nth_updateProgress:
  "i < length (tasks state) \<Longrightarrow>
   tasks (updateProgress m state) ! i =
     (if id (tasks state ! i) = task_id m then patchTask m (tasks state ! i)
      else tasks state ! i)"
  by (simp add: updateProgress_def)

lemma patchTask_carried:
  "progress (patchTask m t) = pm_progress m"
  "downloaded_bytes (patchTask m t) = downloaded m"
  "total_bytes (patchTask m t) = total m"
  "speed (patchTask m t) = pm_speed m"
  "status (patchTask m t) = pm_status m"
  by (simp_all add: patchTask_def)

lemma patchTask_frame:
  "id (patchTask m t) = id t"
  "title (patchTask m t) = title t"
  "page_url (patchTask m t) = page_url t"
  "video_url (patchTask m t) = video_url t"
  "thumbnail_url (patchTask m t) = thumbnail_url t"
  "resolution (patchTask m t) = resolution t"
  "save_dir (patchTask m t) = save_dir t"
  "error_message (patchTask m t) = error_message t"
  "created_at (patchTask m t) = created_at t"
  "completed_at (patchTask m t) = completed_at t"
  by (simp_all add: patchTask_def)

text \<open>
  C2. \<^const>\<open>updateProgress\<close> keeps the number and positions of the tasks. A task whose
  id is the message's \<open>task_id\<close> gets the message's progress, downloaded, total, speed
  and status, and keeps its id, title, page_url, video_url, thumbnail_url, resolution,
  save_dir, error_message, created_at and completed_at; every other task is the same
  task as before.
\<close>

theorem updateProgress_overwrites_only_carried_fields:
  "length (tasks (updateProgress m state)) = length (tasks state)
   \<and> (\<forall>i < length (tasks state).
        (id (tasks state ! i) = task_id m \<longrightarrow>
           progress (tasks (updateProgress m state) ! i) = pm_progress m
         \<and> downloaded_bytes (tasks (updateProgress m state) ! i) = downloaded m
         \<and> total_bytes (tasks (updateProgress m state) ! i) = total m
         \<and> speed (tasks (updateProgress m state) ! i) = pm_speed m
         \<and> status (tasks (updateProgress m state) ! i) = pm_status m
         \<and> id (tasks (updateProgress m state) ! i) = id (tasks state ! i)
         \<and> title (tasks (updateProgress m state) ! i) = title (tasks state ! i)
         \<and> page_url (tasks (updateProgress m state) ! i) = page_url (tasks state ! i)
         \<and> video_url (tasks (updateProgress m state) ! i) = video_url (tasks state ! i)
         \<and> thumbnail_url (tasks (updateProgress m state) ! i)
             = thumbnail_url (tasks state ! i)
         \<and> resolution (tasks (updateProgress m state) ! i) = resolution (tasks state ! i)
         \<and> save_dir (tasks (updateProgress m state) ! i) = save_dir (tasks state ! i)
         \<and> error_message (tasks (updateProgress m state) ! i)
             = error_message (tasks state ! i)
         \<and> created_at (tasks (updateProgress m state) ! i) = created_at (tasks state ! i)
         \<and> completed_at (tasks (updateProgress m state) ! i)
             = completed_at (tasks state ! i))
      \<and> (id (tasks state ! i) \<noteq> task_id m \<longrightarrow>
           tasks (updateProgress m state) ! i = tasks state ! i))"
proof (intro conjI allI impI)
  show "length (tasks (updateProgress m state)) = length (tasks state)"
    by (rule length_updateProgress)
next
  fix i
  assume i: "i < length (tasks state)" and other: "id (tasks state ! i) \<noteq> task_id m"
  show "tasks (updateProgress m state) ! i = tasks state ! i"
    using nth_updateProgress [OF i, of m] other by simp
next
  fix i
  assume i: "i < length (tasks state)" and hit: "id (tasks state ! i) = task_id m"
  have eq: "tasks (updateProgress m state) ! i = patchTask m (tasks state ! i)"
    using nth_updateProgress [OF i, of m] hit by simp
  show "progress (tasks (updateProgress m state) ! i) = pm_progress m"
    "downloaded_bytes (tasks (updateProgress m state) ! i) = downloaded m"
    "total_bytes (tasks (updateProgress m state) ! i) = total m"
    "speed (tasks (updateProgress m state) ! i) = pm_speed m"
    "status (tasks (updateProgress m state) ! i) = pm_status m"
    by (simp_all only: eq patchTask_carried)
  show "id (tasks (updateProgress m state) ! i) = id (tasks state ! i)"
    "title (tasks (updateProgress m state) ! i) = title (tasks state ! i)"
    "page_url (tasks (updateProgress m state) ! i) = page_url (tasks state ! i)"
    "video_url (tasks (updateProgress m state) ! i) = video_url (tasks state ! i)"
    "thumbnail_url (tasks (updateProgress m state) ! i) = thumbnail_url (tasks state ! i)"
    "resolution (tasks (updateProgress m state) ! i) = resolution (tasks state ! i)"
    "save_dir (tasks (updateProgress m state) ! i) = save_dir (tasks state ! i)"
    "error_message (tasks (updateProgress m state) ! i) = error_message (tasks state ! i)"
    "created_at (tasks (updateProgress m state) ! i) = created_at (tasks state ! i)"
    "completed_at (tasks (updateProgress m state) ! i) = completed_at (tasks state ! i)"
    by (simp_all only: eq patchTask_frame)
qed

theorem updateProgress_overwrites_only_carried_fields_witness:
  "progress (tasks (updateProgress (mkMsg ''a'' 50 ''downloading'')
       \<lparr>tasks = [mkTask ''a'' ''pending'' ''1'', mkTask ''b'' ''pending'' ''2'']\<rparr>) ! 0) = 50
   \<and> status (tasks (updateProgress (mkMsg ''a'' 50 ''downloading'')
       \<lparr>tasks = [mkTask ''a'' ''pending'' ''1'', mkTask ''b'' ''pending'' ''2'']\<rparr>) ! 0)
       = ''downloading''
   \<and> created_at (tasks (updateProgress (mkMsg ''a'' 50 ''downloading'')
       \<lparr>tasks = [mkTask ''a'' ''pending'' ''1'', mkTask ''b'' ''pending'' ''2'']\<rparr>) ! 0) = ''1''
   \<and> tasks (updateProgress (mkMsg ''a'' 50 ''downloading'')
       \<lparr>tasks = [mkTask ''a'' ''pending'' ''1'', mkTask ''b'' ''pending'' ''2'']\<rparr>) ! 1
       = mkTask ''b'' ''pending'' ''2''"
proof -
  let ?m = "mkMsg ''a'' 50 ''downloading''"
  let ?s = "\<lparr>tasks = [mkTask ''a'' ''pending'' ''1'', mkTask ''b'' ''pending'' ''2'']\<rparr>"
  have len: "0 < length (tasks ?s)" "1 < length (tasks ?s)"
    by simp_all
  have hit: "id (tasks ?s ! 0) = task_id ?m"
    by (simp add: mkTask_def mkMsg_def)
  have miss: "id (tasks ?s ! 1) \<noteq> task_id ?m"
    by (simp add: mkTask_def mkMsg_def)
  have all: "\<forall>i < length (tasks ?s).
        (id (tasks ?s ! i) = task_id ?m \<longrightarrow>
           progress (tasks (updateProgress ?m ?s) ! i) = pm_progress ?m
         \<and> status (tasks (updateProgress ?m ?s) ! i) = pm_status ?m
         \<and> created_at (tasks (updateProgress ?m ?s) ! i) = created_at (tasks ?s ! i))
      \<and> (id (tasks ?s ! i) \<noteq> task_id ?m \<longrightarrow>
           tasks (updateProgress ?m ?s) ! i = tasks ?s ! i)"
    using updateProgress_overwrites_only_carried_fields [of ?m ?s] by blast
  have "progress (tasks (updateProgress ?m ?s) ! 0) = pm_progress ?m"
    "status (tasks (updateProgress ?m ?s) ! 0) = pm_status ?m"
    "created_at (tasks (updateProgress ?m ?s) ! 0) = created_at (tasks ?s ! 0)"
    using all len(1) hit by blast+
  moreover have "tasks (updateProgress ?m ?s) ! 1 = tasks ?s ! 1"
    using all len(2) miss by blast
  ultimately show ?thesis
    by (simp add: mkMsg_def mkTask_def)
qed

lemma updateProgress_unknown_id:
  "task_id m \<notin> id ` set ts \<Longrightarrow>
   map (\<lambda>task. if id task = task_id m then patchTask m task else task) ts = ts"
  by (induction ts) auto

text \<open>
  C3. A message whose \<open>task_id\<close> is the id of no task in the store leaves the store as
  it is: no task is changed and none is added.
\<close>

theorem updateProgress_drops_unknown_task:
  "task_id m \<notin> id ` set (tasks state) \<Longrightarrow> updateProgress m state = state"
  by (simp add: updateProgress_def updateProgress_unknown_id)

theorem updateProgress_drops_unknown_task_witness:
  "task_id (mkMsg ''zz'' 50 ''downloading'')
     \<notin> id ` set (tasks \<lparr>tasks = [mkTask ''a'' ''pending'' ''1'', mkTask ''b'' ''failed'' ''2'']\<rparr>)
   \<and> updateProgress (mkMsg ''zz'' 50 ''downloading'')
       \<lparr>tasks = [mkTask ''a'' ''pending'' ''1'', mkTask ''b'' ''failed'' ''2'']\<rparr>
     = \<lparr>tasks = [mkTask ''a'' ''pending'' ''1'', mkTask ''b'' ''failed'' ''2'']\<rparr>"
proof -
  have unknown: "task_id (mkMsg ''zz'' 50 ''downloading'')
     \<notin> id ` set (tasks \<lparr>tasks = [mkTask ''a'' ''pending'' ''1'', mkTask ''b'' ''failed'' ''2'']\<rparr>)"
    by (simp add: mkMsg_def mkTask_def)
  show ?thesis
    using unknown updateProgress_drops_unknown_task [OF unknown] by simp
qed

text \<open>
  C5, as stated, fails: the store has no guard on the old status. A completed task that
  receives a message with status \<open>downloading\<close> is shown as downloading afterwards.
\<close>

theorem terminal_status_left_counterexample:
  "terminal (status (tasks \<lparr>tasks = [mkTask ''a'' ''completed'' ''1'']\<rparr> ! 0))
   \<and> id (tasks \<lparr>tasks = [mkTask ''a'' ''completed'' ''1'']\<rparr> ! 0)
       = task_id (mkMsg ''a'' 50 ''downloading'')
   \<and> \<not> terminal (status (tasks (updateProgress (mkMsg ''a'' 50 ''downloading'')
         \<lparr>tasks = [mkTask ''a'' ''completed'' ''1'']\<rparr>) ! 0))"
  by (simp add: terminal_def updateProgress_def patchTask_def mkTask_def mkMsg_def)

text \<open>
  C5, amended. The status of a task addressed by a message is, after the update, the
  status the message carries, whatever the task's status was. So a terminal task is
  still terminal afterwards exactly when the message's status is terminal.
\<close>

theorem updateProgress_installs_message_status:
  "i < length (tasks state) \<Longrightarrow> id (tasks state ! i) = task_id m \<Longrightarrow>
   status (tasks (updateProgress m state) ! i) = pm_status m
   \<and> terminal (status (tasks (updateProgress m state) ! i)) = terminal (pm_status m)"
  by (simp add: nth_updateProgress patchTask_carried)

theorem updateProgress_installs_message_status_witness:
  "0 < length (tasks \<lparr>tasks = [mkTask ''a'' ''completed'' ''1'']\<rparr>)
   \<and> id (tasks \<lparr>tasks = [mkTask ''a'' ''completed'' ''1'']\<rparr> ! 0)
       = task_id (mkMsg ''a'' 100 ''completed'')
   \<and> status (tasks (updateProgress (mkMsg ''a'' 100 ''completed'')
         \<lparr>tasks = [mkTask ''a'' ''completed'' ''1'']\<rparr>) ! 0) = ''completed''
   \<and> terminal (status (tasks (updateProgress (mkMsg ''a'' 100 ''completed'')
         \<lparr>tasks = [mkTask ''a'' ''completed'' ''1'']\<rparr>) ! 0))"
proof -
  let ?m = "mkMsg ''a'' 100 ''completed''"
  let ?s = "\<lparr>tasks = [mkTask ''a'' ''completed'' ''1'']\<rparr>"
  have len: "0 < length (tasks ?s)"
    by simp
  have hit: "id (tasks ?s ! 0) = task_id ?m"
    by (simp add: mkTask_def mkMsg_def)
  show ?thesis
    using len hit updateProgress_installs_message_status [OF len hit]
    by (simp add: mkMsg_def terminal_def)
qed

section \<open>Ordering properties\<close>
















section \<open>Bulk import properties\<close>

lemma startsWith_prefix: "startsWith s p = prefix p s"
  unfolding startsWith_def
  by (metis append_eq_conv_conj prefix_def take_is_prefix)

lemma includesStr_sublist: "includesStr s p = sublist p s"
  by (induction s) (simp_all add: sublist_Cons_right startsWith_prefix)

lemma trimStart_decomp:
  "s = takeWhile isWhiteSpace s @ trimStart s"
  by (simp add: trimStart_def)

lemma trimEnd_decomp:
  "s = trimEnd s @ rev (takeWhile isWhiteSpace (rev s))"
  by (metis rev_append rev_rev_ident takeWhile_dropWhile_id trimEnd_def)

lemma trim_decomp:
  "\<exists>l r. s = l @ trim s @ r \<and> list_all isWhiteSpace l \<and> list_all isWhiteSpace r"
proof -
  let ?l = "takeWhile isWhiteSpace s"
  let ?r = "rev (takeWhile isWhiteSpace (rev (trimStart s)))"
  have "trimStart s = trim s @ ?r"
    unfolding trim_def by (rule trimEnd_decomp)
  with trimStart_decomp [of s] have "s = ?l @ trim s @ ?r"
    by simp
  moreover have "list_all isWhiteSpace ?l" "list_all isWhiteSpace ?r"
    by (auto simp: list_all_iff dest: set_takeWhileD)
  ultimately show ?thesis
    by blast
qed

lemma trim_ends:
  assumes "trim s \<noteq> []"
  shows "\<not> isWhiteSpace (hd (trim s)) \<and> \<not> isWhiteSpace (last (trim s))"
proof
  have start: "trimStart s = trim s @ rev (takeWhile isWhiteSpace (rev (trimStart s)))"
    unfolding trim_def by (rule trimEnd_decomp)
  with assms have "hd (trim s) = hd (trimStart s)"
    by (metis hd_append2)
  moreover from start assms have "trimStart s \<noteq> []"
    by auto
  ultimately show "\<not> isWhiteSpace (hd (trim s))"
    unfolding trimStart_def by (metis hd_dropWhile)
next
  let ?d = "dropWhile isWhiteSpace (rev (trimStart s))"
  have eq: "trim s = rev ?d"
    by (simp add: trim_def trimEnd_def)
  with assms have "?d \<noteq> []"
    by simp
  then have "\<not> isWhiteSpace (hd ?d)"
    by (rule hd_dropWhile)
  moreover from \<open>?d \<noteq> []\<close> have "last (rev ?d) = hd ?d"
    by (simp add: last_rev)
  ultimately show "\<not> isWhiteSpace (last (trim s))"
    unfolding eq by simp
qed

lemma dropWhile_keeps_block:
  "m \<noteq> [] \<Longrightarrow> \<not> P (hd m) \<Longrightarrow> \<exists>pre'. dropWhile P (pre @ m @ post) = pre' @ m @ post"
  by (induction pre) (auto simp: neq_Nil_conv)

lemma trimEnd_keeps_block:
  assumes "m \<noteq> []" "\<not> isWhiteSpace (last m)"
  shows "\<exists>post'. trimEnd (pre @ m @ post) = pre @ m @ post'"
proof -
  have "rev m \<noteq> []" "\<not> isWhiteSpace (hd (rev m))"
    using assms by (simp_all add: hd_rev)
  then obtain q where "dropWhile isWhiteSpace (rev post @ rev m @ rev pre) = q @ rev m @ rev pre"
    using dropWhile_keeps_block [of "rev m" isWhiteSpace "rev post" "rev pre"] by blast
  then have "trimEnd (pre @ m @ post) = pre @ m @ rev q"
    by (simp add: trimEnd_def)
  then show ?thesis
    by blast
qed

lemma trim_keeps_block:
  assumes "m \<noteq> []" "\<not> isWhiteSpace (hd m)" "\<not> isWhiteSpace (last m)"
  shows "sublist m (trim (pre @ m @ post))"
proof -
  obtain pre' where "trimStart (pre @ m @ post) = pre' @ m @ post"
    using dropWhile_keeps_block [of m isWhiteSpace pre post] assms(1,2)
    unfolding trimStart_def by blast
  moreover obtain post' where "trimEnd (pre' @ m @ post) = pre' @ m @ post'"
    using trimEnd_keeps_block [of m pre' post] assms(1,3) by blast
  ultimately have "trim (pre @ m @ post) = pre' @ m @ post'"
    by (simp add: trim_def)
  then show ?thesis
    by (auto simp: sublist_def)
qed

lemma validateVideoUrl_marker: "validateVideoUrl (pre @ ''hanime1.me/watch'' @ post)"
proof -
  have "sublist ''hanime1.me/watch'' (trim (pre @ ''hanime1.me/watch'' @ post))"
    by (rule trim_keeps_block) (simp_all add: isWhiteSpace_def)
  moreover from this have "trim (pre @ ''hanime1.me/watch'' @ post) \<noteq> []"
    by auto
  ultimately show ?thesis
    by (simp add: validateVideoUrl_def includesStr_sublist Let_def)
qed

lemma validateVideoUrl_iff:
  "validateVideoUrl url \<longleftrightarrow>
     trim url \<noteq> [] \<and> (sublist ''hanime1.me/watch'' (trim url) \<or> prefix ''/watch'' (trim url))"
proof (cases "url = []")
  case True
  then show ?thesis
    by (simp add: validateVideoUrl_def trim_def trimStart_def trimEnd_def)
next
  case False
  then show ?thesis
    by (simp add: validateVideoUrl_def Let_def includesStr_sublist startsWith_prefix)
qed

lemma requests_handleBulkDownload:
  "requests (handleBulkDownload server ui) =
     requests ui @ (if validUrls ui = [] then []
                    else [\<lparr>urls = validUrls ui, req_resolution = ui_resolution ui\<rparr>])"
  by (simp add: handleBulkDownload_def Let_def split: settled.splits)

text \<open>
  C8. A candidate is accepted exactly when its trimmed form is not empty and either
  contains \<open>hanime1.me/watch\<close> or begins with \<open>/watch\<close>, where the trimmed form is the
  candidate without the white space at its two ends. Nothing but the shape is looked
  at: every string that contains the marker is accepted. The valid list holds exactly
  the accepted candidates and the invalid list exactly the rejected ones; the one
  request a run sends carries the valid list, so no rejected candidate is ever sent.
\<close>

theorem validateVideoUrl_shape_and_partition:
  "(validateVideoUrl url \<longleftrightarrow>
      trim url \<noteq> []
      \<and> (sublist ''hanime1.me/watch'' (trim url) \<or> prefix ''/watch'' (trim url)))
   \<and> (\<exists>l r. url = l @ trim url @ r \<and> list_all isWhiteSpace l \<and> list_all isWhiteSpace r)
   \<and> (trim url \<noteq> [] \<longrightarrow>
        \<not> isWhiteSpace (hd (trim url)) \<and> \<not> isWhiteSpace (last (trim url)))
   \<and> validateVideoUrl (pre @ ''hanime1.me/watch'' @ post)
   \<and> set (validUrls ui) = {u \<in> set (parseUrls (urlsText ui)). validateVideoUrl u}
   \<and> set (invalidUrls ui) = {u \<in> set (parseUrls (urlsText ui)). \<not> validateVideoUrl u}
   \<and> requests (handleBulkDownload server ui) =
        requests ui @ (if validUrls ui = [] then []
                       else [\<lparr>urls = validUrls ui, req_resolution = ui_resolution ui\<rparr>])
   \<and> set (validUrls ui) \<inter> set (invalidUrls ui) = {}"
proof (intro conjI)
  show "validateVideoUrl url \<longleftrightarrow>
      trim url \<noteq> []
      \<and> (sublist ''hanime1.me/watch'' (trim url) \<or> prefix ''/watch'' (trim url))"
    by (rule validateVideoUrl_iff)
  show "\<exists>l r. url = l @ trim url @ r \<and> list_all isWhiteSpace l \<and> list_all isWhiteSpace r"
    by (rule trim_decomp)
  show "trim url \<noteq> [] \<longrightarrow>
        \<not> isWhiteSpace (hd (trim url)) \<and> \<not> isWhiteSpace (last (trim url))"
    using trim_ends by blast
  show "validateVideoUrl (pre @ ''hanime1.me/watch'' @ post)"
    by (rule validateVideoUrl_marker)
  show "set (validUrls ui) = {u \<in> set (parseUrls (urlsText ui)). validateVideoUrl u}"
    by (simp add: validUrls_def)
  show "set (invalidUrls ui) = {u \<in> set (parseUrls (urlsText ui)). \<not> validateVideoUrl u}"
    by (simp add: invalidUrls_def)
  show "requests (handleBulkDownload server ui) =
        requests ui @ (if validUrls ui = [] then []
                       else [\<lparr>urls = validUrls ui, req_resolution = ui_resolution ui\<rparr>])"
    by (rule requests_handleBulkDownload)
  show "set (validUrls ui) \<inter> set (invalidUrls ui) = {}"
    by (auto simp: validUrls_def invalidUrls_def)
qed

lemma parseUrls_sample_input:
  "parseUrls sample_input = [''/watch/me'', ''ftp://x'', ''https://hanime1.me/watch?v=7'']"
  by (simp add: sample_input_def parseUrls_def trim_def trimStart_def trimEnd_def
      isWhiteSpace_def)

lemma validateVideoUrl_samples:
  "validateVideoUrl ''/watch/me''" "\<not> validateVideoUrl ''ftp://x''"
  "validateVideoUrl ''https://hanime1.me/watch?v=7''"
  by (simp_all add: validateVideoUrl_def trim_def trimStart_def trimEnd_def isWhiteSpace_def
      startsWith_def)

theorem validateVideoUrl_shape_and_partition_witness:
  "trim '' /watch/me '' = ''/watch/me''
   \<and> validateVideoUrl '' /watch/me ''
   \<and> \<not> isWhiteSpace (hd (trim '' /watch/me ''))
   \<and> validUrls (initialSection sample_input) = [''/watch/me'', ''https://hanime1.me/watch?v=7'']
   \<and> invalidUrls (initialSection sample_input) = [''ftp://x'']
   \<and> requests (handleBulkDownload (\<lambda>request. NotOk ''Bad Gateway'')
         (initialSection sample_input))
       = [\<lparr>urls = [''/watch/me'', ''https://hanime1.me/watch?v=7''],
           req_resolution = ''720p''\<rparr>]"
proof -
  let ?ui = "initialSection sample_input"
  note inst = validateVideoUrl_shape_and_partition
    [of "'' /watch/me ''" "[]" "[]" ?ui "\<lambda>request. NotOk ''Bad Gateway''"]
  have trimmed: "trim '' /watch/me '' = ''/watch/me''"
    by (simp add: trim_def trimStart_def trimEnd_def isWhiteSpace_def)
  then have nonempty: "trim '' /watch/me '' \<noteq> []" and pre: "prefix ''/watch'' (trim '' /watch/me '')"
    by simp_all
  from inst nonempty pre have accepted: "validateVideoUrl '' /watch/me ''"
    by blast
  from inst nonempty have ends: "\<not> isWhiteSpace (hd (trim '' /watch/me ''))"
    by blast
  have valid: "validUrls ?ui = [''/watch/me'', ''https://hanime1.me/watch?v=7'']"
    by (simp add: validUrls_def initialSection_def parseUrls_sample_input
        validateVideoUrl_samples)
  have invalid: "invalidUrls ?ui = [''ftp://x'']"
    by (simp add: invalidUrls_def initialSection_def parseUrls_sample_input
        validateVideoUrl_samples)
  from inst have "requests (handleBulkDownload (\<lambda>request. NotOk ''Bad Gateway'') ?ui) =
        requests ?ui @ (if validUrls ?ui = [] then []
                       else [\<lparr>urls = validUrls ?ui, req_resolution = ui_resolution ?ui\<rparr>])"
    by blast
  then have sent: "requests (handleBulkDownload (\<lambda>request. NotOk ''Bad Gateway'') ?ui)
       = [\<lparr>urls = [''/watch/me'', ''https://hanime1.me/watch?v=7''],
           req_resolution = ''720p''\<rparr>]"
    by (simp add: valid) (simp add: initialSection_def)
  from trimmed accepted ends valid invalid sent show ?thesis
    by blast
qed

lemma parseUrls_site_input:
  "parseUrls site_input = [''https://site/watch?v=1'', ''not-a-url'', ''https://site/watch?v=2'']"
  by (simp add: site_input_def parseUrls_def trim_def trimStart_def trimEnd_def
      isWhiteSpace_def)

lemma parseUrls_hanime_input:
  "parseUrls hanime_input =
     [''https://hanime1.me/watch?v=1'', ''not-a-url'', ''https://hanime1.me/watch?v=2'']"
  by (simp add: hanime_input_def parseUrls_def trim_def trimStart_def trimEnd_def
      isWhiteSpace_def)

lemma validateVideoUrl_site:
  "\<not> validateVideoUrl ''https://site/watch?v=1''" "\<not> validateVideoUrl ''not-a-url''"
  "\<not> validateVideoUrl ''https://site/watch?v=2''"
  by (simp_all add: validateVideoUrl_def trim_def trimStart_def trimEnd_def isWhiteSpace_def
      startsWith_def)

lemma validateVideoUrl_hanime:
  "validateVideoUrl ''https://hanime1.me/watch?v=1''"
  "validateVideoUrl ''https://hanime1.me/watch?v=2''"
  by (simp_all add: validateVideoUrl_def trim_def trimStart_def trimEnd_def isWhiteSpace_def
      startsWith_def)

lemma validUrls_site: "validUrls (initialSection site_input) = []"
  by (simp add: validUrls_def initialSection_def parseUrls_site_input validateVideoUrl_site)

lemma validUrls_hanime:
  "validUrls (initialSection hanime_input) =
     [''https://hanime1.me/watch?v=1'', ''https://hanime1.me/watch?v=2'']"
  by (simp add: validUrls_def initialSection_def parseUrls_hanime_input
      validateVideoUrl_hanime validateVideoUrl_site)

lemma invalidUrls_hanime: "invalidUrls (initialSection hanime_input) = [''not-a-url'']"
  by (simp add: invalidUrls_def initialSection_def parseUrls_hanime_input
      validateVideoUrl_hanime validateVideoUrl_site)

text \<open>
  C4, as stated, fails. For the three candidates as the claim writes them, none passes
  validation (none contains \<open>hanime1.me/watch\<close> or begins with \<open>/watch\<close>), so nothing is
  sent and no result is reported at all. With the site's own host in the two watch
  URLs, and a backend that accepts \<open>v=1\<close> and rejects \<open>v=2\<close>, the result reported is
  one success and one failure, and \<open>not-a-url\<close> is not in its failed list.
\<close>

theorem bulk_report_counterexample:
  "requests (handleBulkDownload (backend_bulk_urls (\<lambda>u. u = ''https://site/watch?v=1''))
      (initialSection site_input)) = []
   \<and> mutation_data (handleBulkDownload (backend_bulk_urls (\<lambda>u. u = ''https://site/watch?v=1''))
      (initialSection site_input)) = None
   \<and> mutation_data
       (handleBulkDownload (backend_bulk_urls (\<lambda>u. u = ''https://hanime1.me/watch?v=1''))
         (initialSection hanime_input))
     = Some \<lparr>task_ids = [''task-https://hanime1.me/watch?v=1''], success_count = 1,
             failed_count = 1, failed_urls = [''https://hanime1.me/watch?v=2'']\<rparr>"
proof (intro conjI)
  let ?site = "handleBulkDownload (backend_bulk_urls (\<lambda>u. u = ''https://site/watch?v=1''))
      (initialSection site_input)"
  have "?site = (initialSection site_input)
      \<lparr>toasts := toasts (initialSection site_input) @ [ToastError ''common.error'']\<rparr>"
    by (simp add: handleBulkDownload_def validUrls_site)
  then show "requests ?site = []" "mutation_data ?site = None"
    by (simp_all add: initialSection_def)
next
  show "mutation_data
       (handleBulkDownload (backend_bulk_urls (\<lambda>u. u = ''https://hanime1.me/watch?v=1''))
         (initialSection hanime_input))
     = Some \<lparr>task_ids = [''task-https://hanime1.me/watch?v=1''], success_count = 1,
             failed_count = 1, failed_urls = [''https://hanime1.me/watch?v=2'']\<rparr>"
    by (simp add: handleBulkDownload_def validUrls_hanime Let_def backend_bulk_urls_def
        bulkUrlsImport_def)
qed

lemma handleBulkDownload_nothing_valid:
  "validUrls ui = [] \<Longrightarrow>
   handleBulkDownload server ui = ui\<lparr>toasts := toasts ui @ [ToastError ''common.error'']\<rparr>"
  by (simp add: handleBulkDownload_def)

lemma handleBulkDownload_ok:
  "validUrls ui \<noteq> [] \<Longrightarrow>
   server \<lparr>urls = validUrls ui, req_resolution = ui_resolution ui\<rparr> = Ok data \<Longrightarrow>
   handleBulkDownload server ui =
     ui\<lparr>requests := requests ui @ [\<lparr>urls = validUrls ui, req_resolution = ui_resolution ui\<rparr>],
        toasts := toasts ui @ [useBulkUrls_onSuccess data],
        mutation_data := Some data,
        urlsText := [],
        fileName := None\<rparr>"
  by (simp add: handleBulkDownload_def Let_def bulkUrlsImport_def)

text \<open>
  C4, amended. Only the valid candidates are sent, in one request, and only when there
  is one. The result the section is given is the reply of the server to that request,
  as it is: its counts and its failed list are the server's answer about the valid
  candidates, and the candidates that validation excluded are not part of it. With
  no valid candidate nothing is sent and no result is reported; a request that does not
  succeed reports none either. The warning toast shows the two counts of the reply.
\<close>

theorem bulk_report_is_server_reply:
  "(validUrls ui = [] \<longrightarrow>
      requests (handleBulkDownload server ui) = requests ui
      \<and> mutation_data (handleBulkDownload server ui) = mutation_data ui)
   \<and> (validUrls ui \<noteq> []
        \<and> server \<lparr>urls = validUrls ui, req_resolution = ui_resolution ui\<rparr> = Ok data \<longrightarrow>
      requests (handleBulkDownload server ui) =
        requests ui @ [\<lparr>urls = validUrls ui, req_resolution = ui_resolution ui\<rparr>]
      \<and> mutation_data (handleBulkDownload server ui) = Some data
      \<and> toasts (handleBulkDownload server ui) = toasts ui @ [useBulkUrls_onSuccess data]
      \<and> (failed_count data > 0 \<longrightarrow>
           (\<exists>description. useBulkUrls_onSuccess data =
              ToastWarningCreated (success_count data) (failed_count data) description)))
   \<and> (validUrls ui \<noteq> []
        \<and> (\<forall>data. server \<lparr>urls = validUrls ui, req_resolution = ui_resolution ui\<rparr> \<noteq> Ok data)
      \<longrightarrow> mutation_data (handleBulkDownload server ui) = mutation_data ui)"
proof (intro conjI impI)
  assume none: "validUrls ui = []"
  show "requests (handleBulkDownload server ui) = requests ui"
    "mutation_data (handleBulkDownload server ui) = mutation_data ui"
    by (simp_all add: handleBulkDownload_nothing_valid [OF none])
next
  assume "validUrls ui \<noteq> []
        \<and> server \<lparr>urls = validUrls ui, req_resolution = ui_resolution ui\<rparr> = Ok data"
  then have run: "handleBulkDownload server ui =
     ui\<lparr>requests := requests ui @ [\<lparr>urls = validUrls ui, req_resolution = ui_resolution ui\<rparr>],
        toasts := toasts ui @ [useBulkUrls_onSuccess data],
        mutation_data := Some data,
        urlsText := [],
        fileName := None\<rparr>"
    by (simp add: handleBulkDownload_ok)
  show "requests (handleBulkDownload server ui) =
        requests ui @ [\<lparr>urls = validUrls ui, req_resolution = ui_resolution ui\<rparr>]"
    "mutation_data (handleBulkDownload server ui) = Some data"
    "toasts (handleBulkDownload server ui) = toasts ui @ [useBulkUrls_onSuccess data]"
    by (simp_all add: run)
  show "\<exists>description. useBulkUrls_onSuccess data =
              ToastWarningCreated (success_count data) (failed_count data) description"
    if "failed_count data > 0"
    using that by (simp add: useBulkUrls_onSuccess_def)
next
  assume "validUrls ui \<noteq> []
        \<and> (\<forall>data. server \<lparr>urls = validUrls ui, req_resolution = ui_resolution ui\<rparr> \<noteq> Ok data)"
  then show "mutation_data (handleBulkDownload server ui) = mutation_data ui"
    by (auto simp: handleBulkDownload_def Let_def bulkUrlsImport_def
        split: bulk_reply.splits)
qed

theorem bulk_report_is_server_reply_witness:
  "validUrls (initialSection hanime_input) \<noteq> []
   \<and> invalidUrls (initialSection hanime_input) = [''not-a-url'']
   \<and> requests (handleBulkDownload (backend_bulk_urls (\<lambda>u. u = ''https://hanime1.me/watch?v=1''))
        (initialSection hanime_input))
     = [\<lparr>urls = [''https://hanime1.me/watch?v=1'', ''https://hanime1.me/watch?v=2''],
         req_resolution = ''720p''\<rparr>]
   \<and> mutation_data
       (handleBulkDownload (backend_bulk_urls (\<lambda>u. u = ''https://hanime1.me/watch?v=1''))
         (initialSection hanime_input))
     = Some \<lparr>task_ids = [''task-https://hanime1.me/watch?v=1''], success_count = 1,
             failed_count = 1, failed_urls = [''https://hanime1.me/watch?v=2'']\<rparr>"
proof -
  let ?ui = "initialSection hanime_input"
  let ?accepts = "\<lambda>u. u = ''https://hanime1.me/watch?v=1''"
  let ?data = "\<lparr>task_ids = [''task-https://hanime1.me/watch?v=1''], success_count = 1,
             failed_count = 1, failed_urls = [''https://hanime1.me/watch?v=2'']\<rparr>"
  have some: "validUrls ?ui \<noteq> []"
    by (simp add: validUrls_hanime)
  have reply: "backend_bulk_urls ?accepts
      \<lparr>urls = validUrls ?ui, req_resolution = ui_resolution ?ui\<rparr> = Ok ?data"
    by (simp add: backend_bulk_urls_def validUrls_hanime)
  note inst = bulk_report_is_server_reply [of ?ui "backend_bulk_urls ?accepts" ?data]
  from inst some reply
  have "requests (handleBulkDownload (backend_bulk_urls ?accepts) ?ui) =
        requests ?ui @ [\<lparr>urls = validUrls ?ui, req_resolution = ui_resolution ?ui\<rparr>]"
    and data: "mutation_data (handleBulkDownload (backend_bulk_urls ?accepts) ?ui) = Some ?data"
    by blast+
  then have sent: "requests (handleBulkDownload (backend_bulk_urls ?accepts) ?ui)
     = [\<lparr>urls = [''https://hanime1.me/watch?v=1'', ''https://hanime1.me/watch?v=2''],
         req_resolution = ''720p''\<rparr>]"
    by (simp add: validUrls_hanime) (simp add: initialSection_def)
  from some invalidUrls_hanime sent data show ?thesis
    by blast
qed

section \<open>Channel properties\<close>

lemma onmessage_outcome_object:
  "onmessage_outcome (Some (JObject props)) =
     (if truthy (map_of props ''task_id'') \<and> typeof (map_of props ''progress'') = ''number''
      then Forwarded (JObject props) else Ignored)"
  by (simp add: onmessage_outcome_def)

lemma onmessage_outcome_other:
  "onmessage_outcome None = Caught ''SyntaxError''"
  "onmessage_outcome (Some JNull) = Caught ''TypeError''"
  "onmessage_outcome (Some (JBool b)) = Ignored"
  "onmessage_outcome (Some (JNumber n)) = Ignored"
  "onmessage_outcome (Some (JString s)) = Ignored"
  "onmessage_outcome (Some (JArray vs)) = Ignored"
  by (simp_all add: onmessage_outcome_def)

lemma onmessage_channel:
  "sockets (onmessage deliver parsed c) = sockets c"
  "timers (onmessage deliver parsed c) = timers c"
  by (simp_all add: onmessage_def split: message_outcome.splits)

text \<open>
  C7. The handler tests the top level of the parsed message and nothing else. A
  progress payload for a task id that arrives bare is forwarded. The same payload inside the envelope
  \<open>{type, data}\<close> that \<^verbatim>\<open>types/api.ts\<close> declares is ignored, whatever the envelope
  holds: the store is not changed and nothing is logged, although the comment in the
  handler speaks of a message that ``is a ProgressMessage or contains one''.
\<close>

theorem onmessage_ignores_envelope:
  "(i \<noteq> [] \<longrightarrow>
      onmessage_outcome (Some (progress_payload i)) = Forwarded (progress_payload i)
      \<and> onmessage deliver (Some (progress_payload i)) c
          = c\<lparr>ws_store := deliver (progress_payload i) (ws_store c)\<rparr>)
   \<and> onmessage_outcome (Some (WebSocketMessage kind payload)) = Ignored
   \<and> onmessage deliver (Some (WebSocketMessage kind payload)) c = c"
proof (intro conjI impI)
  assume "i \<noteq> []"
  then show bare: "onmessage_outcome (Some (progress_payload i)) = Forwarded (progress_payload i)"
    by (simp add: progress_payload_def onmessage_outcome_object)
  show "onmessage deliver (Some (progress_payload i)) c
       = c\<lparr>ws_store := deliver (progress_payload i) (ws_store c)\<rparr>"
    by (simp add: onmessage_def bare)
next
  show wrapped: "onmessage_outcome (Some (WebSocketMessage kind payload)) = Ignored"
    by (simp add: WebSocketMessage_def onmessage_outcome_object)
  show "onmessage deliver (Some (WebSocketMessage kind payload)) c = c"
    by (simp add: onmessage_def wrapped)
qed

theorem onmessage_ignores_envelope_witness:
  "ws_store (onmessage (\<lambda>data. updateProgress (mkMsg ''a'' 50 ''downloading''))
      (Some (progress_payload ''a'')) (useWebSocket \<lparr>tasks = [mkTask ''a'' ''pending'' ''1'']\<rparr>))
     = \<lparr>tasks = [patchTask (mkMsg ''a'' 50 ''downloading'') (mkTask ''a'' ''pending'' ''1'')]\<rparr>
   \<and> ws_store (onmessage (\<lambda>data. updateProgress (mkMsg ''a'' 50 ''downloading''))
      (Some (WebSocketMessage ''progress'' (progress_payload ''a'')))
      (useWebSocket \<lparr>tasks = [mkTask ''a'' ''pending'' ''1'']\<rparr>))
     = \<lparr>tasks = [mkTask ''a'' ''pending'' ''1'']\<rparr>"
proof -
  let ?deliver = "\<lambda>data. updateProgress (mkMsg ''a'' 50 ''downloading'')"
  let ?c = "useWebSocket \<lparr>tasks = [mkTask ''a'' ''pending'' ''1'']\<rparr>"
  note inst = onmessage_ignores_envelope
    [of "''a''" ?deliver ?c "''progress''" "progress_payload ''a''"]
  have store: "ws_store ?c = \<lparr>tasks = [mkTask ''a'' ''pending'' ''1'']\<rparr>"
    by (simp add: useWebSocket_def connect_def)
  have named: "''a'' \<noteq> []"
    by simp
  from inst named have "onmessage ?deliver (Some (progress_payload ''a'')) ?c
       = ?c\<lparr>ws_store := ?deliver (progress_payload ''a'') (ws_store ?c)\<rparr>"
    by blast
  then have "ws_store (onmessage ?deliver (Some (progress_payload ''a'')) ?c)
     = updateProgress (mkMsg ''a'' 50 ''downloading'') (ws_store ?c)"
    by simp
  also have "\<dots> = updateProgress (mkMsg ''a'' 50 ''downloading'')
      \<lparr>tasks = [mkTask ''a'' ''pending'' ''1'']\<rparr>"
    by (simp only: store)
  also have "\<dots>
     = \<lparr>tasks = [patchTask (mkMsg ''a'' 50 ''downloading'') (mkTask ''a'' ''pending'' ''1'')]\<rparr>"
    by (simp add: updateProgress_def) (simp add: mkMsg_def mkTask_def)
  finally have bare: "ws_store (onmessage ?deliver (Some (progress_payload ''a'')) ?c)
     = \<lparr>tasks = [patchTask (mkMsg ''a'' 50 ''downloading'') (mkTask ''a'' ''pending'' ''1'')]\<rparr>" .
  from inst have "onmessage ?deliver
      (Some (WebSocketMessage ''progress'' (progress_payload ''a''))) ?c = ?c"
    by blast
  with store have wrapped: "ws_store (onmessage ?deliver
      (Some (WebSocketMessage ''progress'' (progress_payload ''a''))) ?c)
     = \<lparr>tasks = [mkTask ''a'' ''pending'' ''1'']\<rparr>"
    by simp
  from bare wrapped show ?thesis
    by blast
qed

lemma ws_run_append:
  "ws_run deliver (es @ es') c = ws_run deliver es' (ws_run deliver es c)"
  by (simp add: ws_run_def)

lemma timers_ws_step:
  "set (timers c) \<subseteq> {3000} \<Longrightarrow> set (timers (ws_step deliver c ev)) \<subseteq> {3000}"
  by (cases ev)
    (auto simp: onopen_def onmessage_def onclose_def onerror_def timer_fires_def connect_def
      split: message_outcome.splits list.splits)

lemma timers_ws_run:
  "set (timers c) \<subseteq> {3000} \<Longrightarrow> set (timers (ws_run deliver events c)) \<subseteq> {3000}"
proof (induction events arbitrary: c)
  case Nil
  then show ?case by (simp add: ws_run_def)
next
  case (Cons ev events)
  from Cons.prems have "set (timers (ws_step deliver c ev)) \<subseteq> {3000}"
    by (rule timers_ws_step)
  then have "set (timers (ws_run deliver events (ws_step deliver c ev))) \<subseteq> {3000}"
    by (rule Cons.IH)
  then show ?case
    by (simp add: ws_run_def)
qed

lemma reconnect_cycle:
  "timers c = [] \<Longrightarrow>
   sockets (ws_run deliver [OnClose, TimerFires] c) = Suc (sockets c)
   \<and> timers (ws_run deliver [OnClose, TimerFires] c) = []"
  by (simp add: ws_run_def onclose_def timer_fires_def connect_def)

lemma reconnect_cycles:
  "timers c = [] \<Longrightarrow>
   sockets (ws_run deliver (concat (replicate n [OnClose, TimerFires])) c) = sockets c + n
   \<and> timers (ws_run deliver (concat (replicate n [OnClose, TimerFires])) c) = []"
proof (induction n arbitrary: c)
  case 0
  then show ?case by (simp add: ws_run_def)
next
  case (Suc n)
  let ?c' = "ws_run deliver [OnClose, TimerFires] c"
  from Suc.prems have one: "sockets ?c' = Suc (sockets c)" "timers ?c' = []"
    using reconnect_cycle by blast+
  have "ws_run deliver (concat (replicate (Suc n) [OnClose, TimerFires])) c
      = ws_run deliver (concat (replicate n [OnClose, TimerFires])) ?c'"
    by (simp only: replicate_Suc concat.simps ws_run_append)
  with Suc.IH [OF one(2)] one(1) show ?case
    by (simp only: add_Suc_shift add_Suc_right add_Suc)
qed

text \<open>
  C9. Every close of a socket schedules one call of \<open>connect\<close> with a delay of 3000
  milliseconds. The error handler itself only logs; a socket that fails is closed by
  the browser after the error event, and the close schedules the reconnect. The
  delay is the same whatever happened before: in every run of events all pending timers
  have the delay 3000. There is no limit on the attempts: for every \<open>n\<close>, after \<open>n\<close>
  rounds of a close and the timer firing, \<open>n\<close> more sockets have been created.
\<close>

theorem reconnect_fixed_delay_no_limit:
  "timers (onclose c) = timers c @ [3000]
   \<and> timers (onerror e c) = timers c
   \<and> timers (ws_run deliver [OnError e, OnClose] c) = timers c @ [3000]
   \<and> (set (timers c) \<subseteq> {3000} \<longrightarrow> set (timers (ws_run deliver events c)) \<subseteq> {3000})
   \<and> (timers c = [] \<longrightarrow>
        sockets (ws_run deliver (concat (replicate n [OnClose, TimerFires])) c) = sockets c + n
        \<and> timers (ws_run deliver (concat (replicate n [OnClose, TimerFires])) c) = [])"
proof (intro conjI impI)
  show "timers (onclose c) = timers c @ [3000]"
    by (simp add: onclose_def)
  show "timers (onerror e c) = timers c"
    by (simp add: onerror_def)
  show "timers (ws_run deliver [OnError e, OnClose] c) = timers c @ [3000]"
    by (simp add: ws_run_def onclose_def onerror_def)
  show "set (timers (ws_run deliver events c)) \<subseteq> {3000}" if "set (timers c) \<subseteq> {3000}"
    using that by (rule timers_ws_run)
  show "sockets (ws_run deliver (concat (replicate n [OnClose, TimerFires])) c) = sockets c + n"
    "timers (ws_run deliver (concat (replicate n [OnClose, TimerFires])) c) = []"
    if "timers c = []"
    using reconnect_cycles [OF that] by blast+
qed

theorem reconnect_fixed_delay_no_limit_witness:
  "timers (useWebSocket initialStore) = []
   \<and> sockets (useWebSocket initialStore) = 1
   \<and> sockets (ws_run (\<lambda>data store. store)
        [OnClose, TimerFires, OnClose, TimerFires, OnClose, TimerFires]
        (useWebSocket initialStore)) = 4
   \<and> timers (ws_run (\<lambda>data store. store) [OnOpen, OnError ''x'', OnClose] (useWebSocket initialStore))
       = [3000]"
proof -
  let ?c = "useWebSocket initialStore"
  have idle: "timers ?c = []" and one: "sockets ?c = 1"
    by (simp_all add: useWebSocket_def connect_def)
  have three: "concat (replicate 3 [OnClose, TimerFires])
      = [OnClose, TimerFires, OnClose, TimerFires, OnClose, TimerFires]"
    by (simp add: numeral_3_eq_3)
  note inst = reconnect_fixed_delay_no_limit [of ?c "''x''" "\<lambda>data store. store" "[]" 3]
  from inst idle have "sockets (ws_run (\<lambda>data store. store) (concat (replicate 3 [OnClose, TimerFires])) ?c)
      = sockets ?c + 3"
    by blast
  with one three have cycles: "sockets (ws_run (\<lambda>data store. store)
        [OnClose, TimerFires, OnClose, TimerFires, OnClose, TimerFires] ?c) = 4"
    by simp
  from reconnect_fixed_delay_no_limit [of "onopen ?c" "''x''" "\<lambda>data store. store" "[]" 0]
  have "timers (ws_run (\<lambda>data store. store) [OnError ''x'', OnClose] (onopen ?c))
      = timers (onopen ?c) @ [3000]"
    by blast
  then have err: "timers (ws_run (\<lambda>data store. store) [OnOpen, OnError ''x'', OnClose] ?c) = [3000]"
    by (simp add: ws_run_def onopen_def idle)
  from idle one cycles err show ?thesis
    by blast
qed

section \<open>Delete properties\<close>

lemma removeTask_idem: "removeTask taskId (removeTask taskId store) = removeTask taskId store"
  by (simp add: removeTask_def)

lemma removeTask_absent:
  "taskId \<notin> id ` set (tasks store) \<Longrightarrow> removeTask taskId store = store"
proof -
  assume "taskId \<notin> id ` set (tasks store)"
  then have "filter (\<lambda>task. id task \<noteq> taskId) (tasks store) = tasks store"
    by (intro filter_True) auto
  then show ?thesis
    by (simp add: removeTask_def)
qed

text \<open>
  C10. Sending the delete request does not touch the store. When the request fails (no
  response, or a status outside 200..299) the store stays as it is; when it succeeds
  the task is removed with \<^const>\<open>removeTask\<close>. \<^const>\<open>removeTask\<close> leaves no task with
  the id, is idempotent, and changes nothing when the id is absent.
\<close>

theorem delete_removes_after_success_only:
  "page_store (handleDelete taskId page) = page_store page
   \<and> page_store (delete_settled (Rejected e) taskId page) = page_store page
   \<and> page_store (delete_settled (taskApi_delete (NoResponse e)) taskId page) = page_store page
   \<and> (\<not> (200 \<le> code \<and> code < 300) \<longrightarrow>
        page_store (delete_settled (taskApi_delete (Status code)) taskId page) = page_store page)
   \<and> (200 \<le> code \<and> code < 300 \<longrightarrow>
        page_store (delete_settled (taskApi_delete (Status code)) taskId page)
          = removeTask taskId (page_store page))
   \<and> taskId \<notin> id ` set (tasks (removeTask taskId store))
   \<and> removeTask taskId (removeTask taskId store) = removeTask taskId store
   \<and> (taskId \<notin> id ` set (tasks store) \<longrightarrow> removeTask taskId store = store)"
proof (intro conjI impI)
  show "page_store (handleDelete taskId page) = page_store page"
    by (simp add: handleDelete_def)
  show "page_store (delete_settled (Rejected e) taskId page) = page_store page"
    by (simp add: delete_settled_def)
  show "page_store (delete_settled (taskApi_delete (NoResponse e)) taskId page) = page_store page"
    by (simp add: delete_settled_def taskApi_delete_def)
  show "page_store (delete_settled (taskApi_delete (Status code)) taskId page) = page_store page"
    if "\<not> (200 \<le> code \<and> code < 300)"
    using that by (auto simp: delete_settled_def taskApi_delete_def)
  show "page_store (delete_settled (taskApi_delete (Status code)) taskId page)
          = removeTask taskId (page_store page)"
    if "200 \<le> code \<and> code < 300"
    using that by (simp add: delete_settled_def taskApi_delete_def useDeleteTask_onSuccess_def)
  show "taskId \<notin> id ` set (tasks (removeTask taskId store))"
    by (auto simp: removeTask_def)
  show "removeTask taskId (removeTask taskId store) = removeTask taskId store"
    by (rule removeTask_idem)
  show "removeTask taskId store = store" if "taskId \<notin> id ` set (tasks store)"
    using that by (rule removeTask_absent)
qed

theorem delete_removes_after_success_only_witness:
  "page_store (delete_settled (taskApi_delete (Status 500)) ''a''
      (handleDelete ''a''
        \<lparr>page_store = \<lparr>tasks = [mkTask ''a'' ''failed'' ''1'', mkTask ''b'' ''pending'' ''2'']\<rparr>,
         deleting = [], invalidated = False, page_toasts = []\<rparr>))
     = \<lparr>tasks = [mkTask ''a'' ''failed'' ''1'', mkTask ''b'' ''pending'' ''2'']\<rparr>
   \<and> page_store (delete_settled (taskApi_delete (Status 204)) ''a''
      (handleDelete ''a''
        \<lparr>page_store = \<lparr>tasks = [mkTask ''a'' ''failed'' ''1'', mkTask ''b'' ''pending'' ''2'']\<rparr>,
         deleting = [], invalidated = False, page_toasts = []\<rparr>))
     = \<lparr>tasks = [mkTask ''b'' ''pending'' ''2'']\<rparr>
   \<and> removeTask ''zz'' \<lparr>tasks = [mkTask ''b'' ''pending'' ''2'']\<rparr>
     = \<lparr>tasks = [mkTask ''b'' ''pending'' ''2'']\<rparr>"
proof -
  let ?s = "\<lparr>tasks = [mkTask ''a'' ''failed'' ''1'', mkTask ''b'' ''pending'' ''2'']\<rparr>"
  let ?page = "\<lparr>page_store = ?s, deleting = [], invalidated = False, page_toasts = []\<rparr>"
  let ?sent = "handleDelete ''a'' ?page"
  have sent: "page_store ?sent = ?s"
    by (simp add: handleDelete_def)
  have bad: "\<not> (200 \<le> (500::nat) \<and> (500::nat) < 300)" and good: "200 \<le> (204::nat) \<and> (204::nat) < 300"
    by simp_all
  from delete_removes_after_success_only [of "''a''" ?sent "[]" 500 initialStore] bad
  have "page_store (delete_settled (taskApi_delete (Status 500)) ''a'' ?sent) = page_store ?sent"
    by blast
  with sent have failed: "page_store (delete_settled (taskApi_delete (Status 500)) ''a'' ?sent) = ?s"
    by simp
  from delete_removes_after_success_only [of "''a''" ?sent "[]" 204 initialStore] good
  have "page_store (delete_settled (taskApi_delete (Status 204)) ''a'' ?sent)
      = removeTask ''a'' (page_store ?sent)"
    by blast
  with sent have removed: "page_store (delete_settled (taskApi_delete (Status 204)) ''a'' ?sent)
      = \<lparr>tasks = [mkTask ''b'' ''pending'' ''2'']\<rparr>"
    by (simp add: removeTask_def mkTask_def)
  have absent: "''zz'' \<notin> id ` set (tasks \<lparr>tasks = [mkTask ''b'' ''pending'' ''2'']\<rparr>)"
    by (simp add: mkTask_def)
  with delete_removes_after_success_only
    [of "''zz''" ?sent "[]" 0 "\<lparr>tasks = [mkTask ''b'' ''pending'' ''2'']\<rparr>"]
  have noop: "removeTask ''zz'' \<lparr>tasks = [mkTask ''b'' ''pending'' ''2'']\<rparr>
     = \<lparr>tasks = [mkTask ''b'' ''pending'' ''2'']\<rparr>"
    by blast
  from failed removed noop show ?thesis
    by blast
qed

end
